theory Spec2Isabelle
  imports Complex_Main
begin

section \<open>JavaScript values\<close>

text \<open>
  The values the mapper and its helpers read. A JavaScript number is a double: NaN, the two
  infinities, or a finite value, carried by its exact rational value (negative zero is
  the same as zero: none of the operations below tells them apart). A primitive is what
  zod's \<^verbatim>\<open>util.Primitive\<close> lists, symbols apart. An object carries what the code can
  observe of it: its prototype (\<^verbatim>\<open>Object.prototype\<close>, none, or the prototype of a
  class with the name of its constructor), its own enumerable properties in insertion
  order, and the enumerable properties it inherits.
\<close>

datatype jsnum = NaN | PosInfinity | NegInfinity | Finite rat

datatype prim = PUndefined | PNull | PBool bool | PNum jsnum | PBigInt int | PStr string

datatype proto = ObjectPrototype | NullPrototype | ClassPrototype string

datatype jsval =
    Prim prim
  | JSymbol string
  | JFunction string
  | JDate jsnum
  | JArray "jsval list"
  | JObject proto "(string \<times> jsval) list" "(string \<times> jsval) list"

type_synonym props = "(string \<times> jsval) list"

abbreviation JUndefined :: jsval where "JUndefined \<equiv> Prim PUndefined"
abbreviation JNull :: jsval where "JNull \<equiv> Prim PNull"
abbreviation JStr :: "string \<Rightarrow> jsval" where "JStr s \<equiv> Prim (PStr s)"
abbreviation JNum :: "jsnum \<Rightarrow> jsval" where "JNum n \<equiv> Prim (PNum n)"

text \<open>The \<^verbatim>\<open>typeof\<close> operator.\<close>

fun typeof :: "jsval \<Rightarrow> string" where
  "typeof (Prim PUndefined) = ''undefined''"
| "typeof (Prim PNull) = ''object''"
| "typeof (Prim (PBool b)) = ''boolean''"
| "typeof (Prim (PNum n)) = ''number''"
| "typeof (Prim (PBigInt i)) = ''bigint''"
| "typeof (Prim (PStr s)) = ''string''"
| "typeof (JSymbol d) = ''symbol''"
| "typeof (JFunction f) = ''function''"
| "typeof (JDate d) = ''object''"
| "typeof (JArray xs) = ''object''"
| "typeof (JObject p own inherited) = ''object''"

section \<open>The error-extraction helpers\<close>

text \<open>
  A finished issue of the validation library carries its message; a \<^verbatim>\<open>$ZodError\<close>
  carries its issues. A thrown value is a \<^verbatim>\<open>$ZodError\<close>, an \<^verbatim>\<open>Error\<close> with its
  message, a \<^verbatim>\<open>TypeError\<close> of the engine, or any other value.
\<close>

datatype zod_issue = ZodIssue (issue_message: string)

datatype zod_error = ZodError (issues: "zod_issue list")

datatype thrown =
    ThrownZodError zod_error
  | ThrownError string
  | ThrownTypeError
  | ThrownValue jsval

record ZodSafeParseResult =
  success :: bool
  data :: jsval
  error :: "zod_error option"

text \<open>
  \<^verbatim>\<open>parsed.error.issues[0].message\<close>: reading \<^verbatim>\<open>message\<close> of the missing first
  element of an empty array is a \<^verbatim>\<open>TypeError\<close>.
\<close>

definition first_issue_message :: "zod_error \<Rightarrow> thrown + string" where
  "first_issue_message e =
     (case issues e of [] \<Rightarrow> Inl ThrownTypeError | i # rest \<Rightarrow> Inr (issue_message i))"

definition getErrorMessage :: "ZodSafeParseResult \<Rightarrow> thrown + string" where
  "getErrorMessage parsed =
     (case error parsed of
        Some e \<Rightarrow> first_issue_message e
      | None \<Rightarrow> Inl (ThrownError ''''))"

text \<open>
  The callback is a computation over the state of the program: it returns or throws, and
  leaves a state. The helper returns a message, or \<^verbatim>\<open>undefined\<close> (\<open>None\<close>) when it
  falls off its end.
\<close>

type_synonym 's callback = "'s \<Rightarrow> (thrown + unit) \<times> 's"

fun instanceof_ZodError :: "thrown \<Rightarrow> bool" where
  "instanceof_ZodError (ThrownZodError e) = True"
| "instanceof_ZodError x = False"

definition getErrorMessageFromZodError ::
  "'s callback \<Rightarrow> 's \<Rightarrow> (thrown + string option) \<times> 's" where
  "getErrorMessageFromZodError callback s =
     (case callback s of
        (Inr u, s') \<Rightarrow> (Inr None, s')
      | (Inl e, s') \<Rightarrow>
          (case e of
             ThrownZodError z \<Rightarrow>
               (case first_issue_message z of
                  Inl x \<Rightarrow> (Inl x, s')
                | Inr m \<Rightarrow> (Inr (Some m), s'))
           | _ \<Rightarrow> (Inl e, s')))"

text \<open>Callbacks for the closed instances below: the state counts the invocations.\<close>

definition throwing_callback :: "thrown \<Rightarrow> nat callback" where
  "throwing_callback e n = (Inl e, Suc n)"

definition returning_callback :: "nat callback" where
  "returning_callback n = (Inr (), Suc n)"

section \<open>Strings, arrays and property bags\<close>

text \<open>Decimal digits of a natural number, and \<^verbatim>\<open>BigInt.prototype.toString\<close>.\<close>

definition digit :: "nat \<Rightarrow> char" where
  "digit d = ''0123456789'' ! d"

fun digits :: "nat \<Rightarrow> string" where
  "digits n = (if n < 10 then [digit n] else digits (n div 10) @ [digit (n mod 10)])"

declare digits.simps [simp del]

definition bigint_toString :: "int \<Rightarrow> string" where
  "bigint_toString i = (if i < 0 then ''-'' @ digits (nat (- i)) else digits (nat i))"

text \<open>\<^verbatim>\<open>Array.prototype.join\<close> on the strings its elements convert to.\<close>

fun join :: "string list \<Rightarrow> string \<Rightarrow> string" where
  "join [] sep = ''''"
| "join [x] sep = x"
| "join (x # y # ys) sep = x @ sep @ join (y # ys) sep"

text \<open>
  An object as the list of its own enumerable properties. Reading a missing property
  gives \<^verbatim>\<open>undefined\<close>; writing an existing one replaces its value where it stands, a
  new one goes last; a spread \<^verbatim>\<open>{...target, ...source}\<close> writes the properties of the
  source in their order. (JavaScript enumerates integer-like names first; reads do not
  depend on the order.)
\<close>

fun get_prop :: "props \<Rightarrow> string \<Rightarrow> jsval" where
  "get_prop [] k = JUndefined"
| "get_prop ((k', v) # ps) k = (if k' = k then v else get_prop ps k)"

fun has_prop :: "props \<Rightarrow> string \<Rightarrow> bool" where
  "has_prop [] k = False"
| "has_prop ((k', v) # ps) k = (if k' = k then True else has_prop ps k)"

fun set_prop :: "string \<Rightarrow> jsval \<Rightarrow> props \<Rightarrow> props" where
  "set_prop k v [] = [(k, v)]"
| "set_prop k v ((k', v') # ps) = (if k' = k then (k', v) # ps else (k', v') # set_prop k v ps)"

fun spread :: "props \<Rightarrow> props \<Rightarrow> props" where
  "spread target [] = target"
| "spread target ((k, v) # source) = spread (set_prop k v target) source"

text \<open>An object literal \<^verbatim>\<open>{k1: v1, ..., kn: vn}\<close>.\<close>

definition obj :: "props \<Rightarrow> props" where
  "obj entries = spread [] entries"

text \<open>
  The own enumerable properties of a value that \<^verbatim>\<open>typeof\<close> calls an object (what a
  spread copies), the names a \<^verbatim>\<open>for ... in\<close> loop visits (own names, then inherited
  names that no own property shadows), \<^verbatim>\<open>hasOwnProperty\<close>, the \<^verbatim>\<open>in\<close> operator and
  a property read. Properties that are not enumerable (the methods of the built-in
  prototypes) are not in the model.
\<close>

fun index_props :: "nat \<Rightarrow> jsval list \<Rightarrow> props" where
  "index_props i [] = []"
| "index_props i (x # xs) = (digits i, x) # index_props (Suc i) xs"

fun own_props :: "jsval \<Rightarrow> props" where
  "own_props (JArray xs) = index_props 0 xs"
| "own_props (JObject p own inherited) = own"
| "own_props v = []"

fun inherited_props :: "jsval \<Rightarrow> props" where
  "inherited_props (JObject p own inherited) = inherited"
| "inherited_props v = []"

definition hasOwnProperty :: "jsval \<Rightarrow> string \<Rightarrow> bool" where
  "hasOwnProperty v k = has_prop (own_props v) k"

definition for_in_keys :: "jsval \<Rightarrow> string list" where
  "for_in_keys v =
     map fst (own_props v)
     @ filter (\<lambda>k. \<not> has_prop (own_props v) k) (map fst (inherited_props v))"

definition has_property :: "jsval \<Rightarrow> string \<Rightarrow> bool" where
  "has_property v k = (if has_prop (own_props v) k then True else has_prop (inherited_props v) k)"

definition read_property :: "jsval \<Rightarrow> string \<Rightarrow> jsval" where
  "read_property v k =
     (if has_prop (own_props v) k then get_prop (own_props v) k
      else get_prop (inherited_props v) k)"

section \<open>The mapper: common parts of the two variants\<close>

text \<open>
  The repository holds two variants of the mapper. The definitions without a suffix
  follow the variant that derives the fallback message from the library's English locale
  and inspects \<^verbatim>\<open>issue.input\<close> and \<^verbatim>\<open>issue.inst\<close>; the definitions with the suffix
  \<open>_core\<close> follow \<^verbatim>\<open>packages/core/src/index.ts\<close>. \<^verbatim>\<open>isRecord\<close> and
  \<^verbatim>\<open>getKeyAndValues\<close> are the same text in both files.
\<close>

fun all_own :: "jsval \<Rightarrow> string list \<Rightarrow> bool" where
  "all_own v [] = True"
| "all_own v (k # ks) = (if hasOwnProperty v k then all_own v ks else False)"

definition isRecord :: "jsval \<Rightarrow> bool" where
  "isRecord v =
     (if typeof v = ''object''
      then (if v = JNull then False else all_own v (for_in_keys v))
      else False)"

text \<open>
  The result is the pair \<^verbatim>\<open>{ key, values }\<close>. \<^verbatim>\<open>typeof x === "string"\<close> holds
  exactly of the string primitives, which the \<open>case\<close> selects.
\<close>

abbreviation empty_object :: jsval where
  "empty_object \<equiv> JObject ObjectPrototype [] []"

definition getKeyAndValues :: "jsval \<Rightarrow> string \<Rightarrow> string \<times> jsval" where
  "getKeyAndValues param defaultKey =
     (case param of
        Prim (PStr s) \<Rightarrow> (s, empty_object)
      | _ \<Rightarrow>
         if isRecord param
         then (let k = (if has_property param ''key''
                        then (case read_property param ''key'' of
                                Prim (PStr s) \<Rightarrow> s
                              | _ \<Rightarrow> defaultKey)
                        else defaultKey);
                   vs = (if has_property param ''values''
                         then (if isRecord (read_property param ''values'')
                               then read_property param ''values''
                               else empty_object)
                         else empty_object)
               in (k, vs))
         else (defaultKey, empty_object))"

subsection \<open>Issues, options and the collaborators\<close>

text \<open>
  A namespace is a string or a list of strings. A segment of a path is a string or a
  number (symbols are left out, as in the specification's data model). A bound is a
  number or a bigint.
\<close>

datatype namespace = NsString string | NsArray "string list"

datatype PropertyKey = KeyString string | KeyNumber jsnum

datatype numeric = Number jsnum | BigInt int

text \<open>
  What the code observes of \<^verbatim>\<open>issue.inst\<close>: which of the library's classes it is an
  instance of and, for a discriminated union, its options. An option is the shape of an
  object schema: for each of its keys, the \<^verbatim>\<open>def.values\<close> of the schema there, when that
  schema has them.
\<close>

type_synonym shape = "(string \<times> prim list option) list"

datatype zod_inst =
    ZodLiteral
  | ZodEnum
  | ZodUnion
  | ZodDiscriminatedUnion "shape list"
  | OtherSchema

text \<open>
  The raw issue the library hands to an error map, with the properties either variant
  reads. An optional property is an \<open>option\<close> (\<open>None\<close>: the property is absent);
  \<^verbatim>\<open>input\<close>, \<^verbatim>\<open>prefix\<close> and \<^verbatim>\<open>suffix\<close> are \<^verbatim>\<open>undefined\<close> when absent. The field
  \<open>values'\<close> is \<^verbatim>\<open>issue.values\<close>.
\<close>

record issue =
  code :: string
  input :: jsval
  path :: "PropertyKey list option"
  message :: "string option"
  inst :: "zod_inst option"
  expected :: "string option"
  received :: "string option"
  values' :: "prim list"
  keys :: "string list"
  discriminator :: "string option"
  format :: string
  prefix :: jsval
  suffix :: jsval
  origin :: string
  minimum :: numeric
  maximum :: numeric
  inclusive :: bool
  exact :: "bool option"
  params :: "props option"
  divisor :: jsnum

text \<open>
  What an error map returns: \<^verbatim>\<open>{ message }\<close>, a string, or nothing
  (\<^verbatim>\<open>undefined\<close> or \<^verbatim>\<open>null\<close>).
\<close>

datatype error_map_return = MessageObject string | MessageString string | NoMessage

type_synonym renderer = "string \<Rightarrow> props \<Rightarrow> string"

text \<open>
  The options of the factory. In \<open>HandlePathOption\<close> the fields \<open>context'\<close> and
  \<open>ns'\<close> are \<^verbatim>\<open>context\<close> and \<^verbatim>\<open>ns\<close>. An explicit \<^verbatim>\<open>handlePath: false\<close> is
  \<open>HandlePathFalse\<close>.
\<close>

record HandlePathOption =
  context' :: "string option"
  ns' :: "namespace option"
  keyPrefix :: "string option"

datatype handlePath_setting = HandlePathFalse | HandlePath HandlePathOption

record ZodI18nMapOption =
  t :: "renderer option"
  ns :: "namespace option"
  handlePath :: "handlePath_setting option"

text \<open>
  The collaborators outside the repository, taken as parameters: the process-wide
  renderer \<^verbatim>\<open>i18next.t\<close>, the English locale's error map \<^verbatim>\<open>en().localeError\<close>,
  \<^verbatim>\<open>Number.prototype.toString\<close>, \<^verbatim>\<open>Number\<close> applied to a bigint,
  \<^verbatim>\<open>JSON.stringify\<close> with a replacer, and \<^verbatim>\<open>String.prototype.toLocaleLowerCase\<close>.
\<close>

record host =
  i18next_t :: renderer
  localeError :: "issue \<Rightarrow> error_map_return"
  number_toString :: "jsnum \<Rightarrow> string"
  Number_of_bigint :: "int \<Rightarrow> jsnum"
  JSON_stringify :: "(string \<Rightarrow> jsval \<Rightarrow> jsval) \<Rightarrow> jsval \<Rightarrow> jsval"
  toLocaleLowerCase :: "string \<Rightarrow> string"

subsection \<open>Conversions\<close>

definition defaultNs :: string where
  "defaultNs = ''zod''"

fun namespace_value :: "namespace \<Rightarrow> jsval" where
  "namespace_value (NsString s) = JStr s"
| "namespace_value (NsArray xs) = JArray (map JStr xs)"

fun optional :: "('a \<Rightarrow> jsval) \<Rightarrow> 'a option \<Rightarrow> jsval" where
  "optional f None = JUndefined"
| "optional f (Some x) = f x"

fun numeric_value :: "numeric \<Rightarrow> jsval" where
  "numeric_value (Number n) = JNum n"
| "numeric_value (BigInt i) = Prim (PBigInt i)"

text \<open>\<^verbatim>\<open>ToString\<close> of a primitive, and of an optional string inside a template literal.\<close>

fun prim_toString :: "host \<Rightarrow> prim \<Rightarrow> string" where
  "prim_toString h PUndefined = ''undefined''"
| "prim_toString h PNull = ''null''"
| "prim_toString h (PBool b) = (if b then ''true'' else ''false'')"
| "prim_toString h (PNum n) = number_toString h n"
| "prim_toString h (PBigInt i) = bigint_toString i"
| "prim_toString h (PStr s) = s"

fun template :: "string option \<Rightarrow> string" where
  "template None = ''undefined''"
| "template (Some s) = s"

text \<open>
  \<^verbatim>\<open>Array.prototype.join\<close>: \<^verbatim>\<open>undefined\<close> and \<^verbatim>\<open>null\<close> elements give the empty
  string, every other element its \<^verbatim>\<open>ToString\<close>.
\<close>

fun join_element :: "host \<Rightarrow> prim \<Rightarrow> string" where
  "join_element h PUndefined = ''''"
| "join_element h PNull = ''''"
| "join_element h v = prim_toString h v"

definition array_join :: "host \<Rightarrow> prim list \<Rightarrow> string \<Rightarrow> string" where
  "array_join h array separator = join (map (join_element h) array) separator"

fun PropertyKey_prim :: "PropertyKey \<Rightarrow> prim" where
  "PropertyKey_prim (KeyString s) = PStr s"
| "PropertyKey_prim (KeyNumber n) = PNum n"

definition path_join :: "host \<Rightarrow> PropertyKey list \<Rightarrow> string" where
  "path_join h p = array_join h (map PropertyKey_prim p) ''.''"

text \<open>
  \<^verbatim>\<open>[a, b].filter(Boolean)\<close> on strings that may be \<^verbatim>\<open>undefined\<close>: the strings that
  are neither \<^verbatim>\<open>undefined\<close> nor empty.
\<close>

fun filter_Boolean :: "string option list \<Rightarrow> string list" where
  "filter_Boolean [] = []"
| "filter_Boolean (None # xs) = filter_Boolean xs"
| "filter_Boolean (Some s # xs) = (if s = [] then filter_Boolean xs else s # filter_Boolean xs)"

text \<open>
  \<^verbatim>\<open>Number(x)\<close> for a number or a bigint, \<^verbatim>\<open>Number.isInteger\<close>, and
  \<^verbatim>\<open>new Date(n)\<close>, whose time value is \<^verbatim>\<open>TimeClip(n)\<close>: NaN when \<open>n\<close> is not finite
  or beyond 8.64e15 milliseconds, and \<open>n\<close> truncated towards zero otherwise.
\<close>

fun Number_of :: "host \<Rightarrow> numeric \<Rightarrow> jsnum" where
  "Number_of h (Number n) = n"
| "Number_of h (BigInt i) = Number_of_bigint h i"

fun isInteger :: "jsnum \<Rightarrow> bool" where
  "isInteger (Finite r) = (of_int \<lfloor>r\<rfloor> = r)"
| "isInteger n = False"

fun TimeClip :: "jsnum \<Rightarrow> jsnum" where
  "TimeClip (Finite r) =
     (if 8640000000000000 < \<bar>r\<bar> then NaN
      else if 0 \<le> r then Finite (of_int \<lfloor>r\<rfloor>)
      else Finite (of_int \<lceil>r\<rceil>))"
| "TimeClip n = NaN"

definition new_Date :: "jsnum \<Rightarrow> jsval" where
  "new_Date n = JDate (TimeClip n)"

subsection \<open>The merged options and the path fragment\<close>

text \<open>
  \<^verbatim>\<open>{ t: i18next.t, ns: defaultNs, ...option, handlePath: ... }\<close>: a property of the
  option that is present replaces the default. Both variants merge in the same way.
\<close>

fun option_ns :: "ZodI18nMapOption option \<Rightarrow> namespace option" where
  "option_ns None = None"
| "option_ns (Some opt) = ns opt"

fun option_handlePath :: "ZodI18nMapOption option \<Rightarrow> handlePath_setting option" where
  "option_handlePath None = None"
| "option_handlePath (Some opt) = handlePath opt"

fun merged_t :: "host \<Rightarrow> ZodI18nMapOption option \<Rightarrow> renderer" where
  "merged_t h None = i18next_t h"
| "merged_t h (Some opt) = (case t opt of None \<Rightarrow> i18next_t h | Some r \<Rightarrow> r)"

definition merged_ns :: "ZodI18nMapOption option \<Rightarrow> namespace" where
  "merged_ns opt = (case option_ns opt of None \<Rightarrow> NsString defaultNs | Some n \<Rightarrow> n)"

definition spread_HandlePathOption :: "HandlePathOption \<Rightarrow> HandlePathOption \<Rightarrow> HandlePathOption" where
  "spread_HandlePathOption target source =
     \<lparr>context' = (case context' source of None \<Rightarrow> context' target | Some c \<Rightarrow> Some c),
      ns' = (case ns' source of None \<Rightarrow> ns' target | Some n \<Rightarrow> Some n),
      keyPrefix = (case keyPrefix source of None \<Rightarrow> keyPrefix target | Some k \<Rightarrow> Some k)\<rparr>"

definition default_handlePath :: "ZodI18nMapOption option \<Rightarrow> HandlePathOption" where
  "default_handlePath opt =
     \<lparr>context' = Some ''with_path'',
      ns' = Some (case option_ns opt of None \<Rightarrow> NsString defaultNs | Some n \<Rightarrow> n),
      keyPrefix = None\<rparr>"

text \<open>The merged \<^verbatim>\<open>handlePath\<close>: \<open>None\<close> is \<^verbatim>\<open>null\<close>.\<close>

definition merged_handlePath :: "ZodI18nMapOption option \<Rightarrow> HandlePathOption option" where
  "merged_handlePath opt =
     (case option_handlePath opt of
        Some HandlePathFalse \<Rightarrow> None
      | Some (HandlePath hp) \<Rightarrow> Some (spread_HandlePathOption (default_handlePath opt) hp)
      | None \<Rightarrow> Some (default_handlePath opt))"

text \<open>
  \<^verbatim>\<open>t(key, { ...entries, ...path })\<close>: every call of the renderer in the \<^verbatim>\<open>switch\<close>
  has this form.
\<close>

definition render :: "renderer \<Rightarrow> string \<Rightarrow> props \<Rightarrow> props \<Rightarrow> string" where
  "render tr k entries frag = tr k (spread (obj entries) frag)"

text \<open>
  The constant \<^verbatim>\<open>path\<close> of the variant with the locale fallback: the fragment is built
  when the path has a segment and \<^verbatim>\<open>handlePath\<close> is not \<^verbatim>\<open>null\<close>.
\<close>

definition path_key :: "HandlePathOption \<Rightarrow> string option \<Rightarrow> string" where
  "path_key hp joined = join (filter_Boolean [keyPrefix hp, joined]) ''.''"

definition path_entries :: "renderer \<Rightarrow> HandlePathOption \<Rightarrow> string option \<Rightarrow> props" where
  "path_entries tr hp joined =
     obj [(''context'', optional JStr (context' hp)),
          (''path'', JStr (tr (path_key hp joined)
                      (obj [(''ns'', optional namespace_value (ns' hp)),
                            (''defaultValue'', optional JStr joined)])))]"

definition path_fragment :: "host \<Rightarrow> renderer \<Rightarrow> HandlePathOption option \<Rightarrow> issue \<Rightarrow> props" where
  "path_fragment h tr hpo issue =
     (case hpo of
        None \<Rightarrow> []
      | Some hp \<Rightarrow>
          if 0 < (case path issue of None \<Rightarrow> 0 | Some p \<Rightarrow> length p)
          then path_entries tr hp (map_option (path_join h) (path issue))
          else [])"

text \<open>
  The constant \<^verbatim>\<open>path\<close> of \<^verbatim>\<open>packages/core/src/index.ts\<close>: the condition is
  \<^verbatim>\<open>issue?.path && !!handlePath\<close>, and an array is truthy whatever its length.
\<close>

definition path_fragment_core :: "host \<Rightarrow> renderer \<Rightarrow> HandlePathOption option \<Rightarrow> issue \<Rightarrow> props" where
  "path_fragment_core h tr hpo issue =
     (case hpo of
        None \<Rightarrow> []
      | Some hp \<Rightarrow>
          (case path issue of
             None \<Rightarrow> []
           | Some p \<Rightarrow> path_entries tr hp (Some (path_join h p))))"

subsection \<open>The helpers of the switch\<close>

text \<open>\<^verbatim>\<open>joinValues\<close> of the two variants; the default separator is \<^verbatim>\<open>" | "\<close>.\<close>

definition default_separator :: string where
  "default_separator = '' | ''"

definition joinValues :: "host \<Rightarrow> prim list \<Rightarrow> string \<Rightarrow> string" where
  "joinValues h array separator =
     array_join h
       (map (\<lambda>val. case val of
                      PStr s \<Rightarrow> PStr ([CHR 0x27] @ s @ [CHR 0x27])
                    | PBigInt i \<Rightarrow> PStr (bigint_toString i)
                    | _ \<Rightarrow> val) array)
       separator"

definition joinValues_core :: "host \<Rightarrow> prim list \<Rightarrow> string \<Rightarrow> string" where
  "joinValues_core h array separator =
     array_join h
       (map (\<lambda>val. case val of
                      PStr s \<Rightarrow> PStr ([CHR 0x27] @ s @ [CHR 0x27])
                    | _ \<Rightarrow> val) array)
       separator"

definition jsonStringifyReplacer :: "string \<Rightarrow> jsval \<Rightarrow> jsval" where
  "jsonStringifyReplacer k val =
     (case val of Prim (PBigInt i) \<Rightarrow> JStr (bigint_toString i) | _ \<Rightarrow> val)"

text \<open>
  \<^verbatim>\<open>getReceivedDataType\<close>: for a value that \<^verbatim>\<open>typeof\<close> calls an object and that is
  neither an array nor \<^verbatim>\<open>null\<close>, the name of the constructor when the prototype is
  not \<^verbatim>\<open>Object.prototype\<close> and there is a constructor; the \<^verbatim>\<open>typeof\<close> tag in every
  other case.
\<close>

fun getReceivedDataType :: "jsval \<Rightarrow> string" where
  "getReceivedDataType (Prim (PNum n)) =
     (if n = NaN then ''NaN'' else if isInteger n then ''number'' else ''float'')"
| "getReceivedDataType (JArray xs) = ''array''"
| "getReceivedDataType (Prim PNull) = ''null''"
| "getReceivedDataType (JDate d) = ''Date''"
| "getReceivedDataType (JObject (ClassPrototype c) own inherited) = c"
| "getReceivedDataType v = typeof v"

text \<open>
  \<^verbatim>\<open>opt.def.shape[issue.discriminator!].def.values[0]\<close> for one option of a
  discriminated union, and the \<^verbatim>\<open>map\<close> over the options, which stops at the first
  \<^verbatim>\<open>TypeError\<close>.
\<close>

definition discriminator_value :: "string \<Rightarrow> shape \<Rightarrow> thrown + prim" where
  "discriminator_value d sh =
     (case map_of sh d of
        None \<Rightarrow> Inl ThrownTypeError
      | Some None \<Rightarrow> Inl ThrownTypeError
      | Some (Some []) \<Rightarrow> Inr PUndefined
      | Some (Some (v # vs)) \<Rightarrow> Inr v)"

fun map_options :: "(shape \<Rightarrow> thrown + prim) \<Rightarrow> shape list \<Rightarrow> thrown + prim list" where
  "map_options f [] = Inr []"
| "map_options f (x # xs) =
     (case f x of
        Inl e \<Rightarrow> Inl e
      | Inr v \<Rightarrow> (case map_options f xs of Inl e \<Rightarrow> Inl e | Inr vs \<Rightarrow> Inr (v # vs)))"

text \<open>The key of \<^verbatim>\<open>too_small\<close> and \<^verbatim>\<open>too_big\<close>, and the two bound parameters.\<close>

definition bound_key :: "string \<Rightarrow> issue \<Rightarrow> string" where
  "bound_key kind issue =
     ''errors.'' @ kind @ ''.'' @ origin issue @ ''.'' @
       (if exact issue = Some True then ''exact''
        else if inclusive issue then ''inclusive''
        else ''not_inclusive'')"

definition bound_value :: "host \<Rightarrow> issue \<Rightarrow> numeric \<Rightarrow> jsval" where
  "bound_value h issue b =
     (if origin issue = ''date'' then new_Date (Number_of h b) else numeric_value b)"

definition count_value :: "jsval \<Rightarrow> jsval" where
  "count_value b = (if typeof b = ''number'' then b else JUndefined)"

definition issue_i18n :: "issue \<Rightarrow> jsval" where
  "issue_i18n issue = (case params issue of None \<Rightarrow> JUndefined | Some ps \<Rightarrow> get_prop ps ''i18n'')"

definition base_entries :: "jsval \<Rightarrow> string \<Rightarrow> props" where
  "base_entries nsv msg = [(''ns'', nsv), (''defaultValue'', JStr msg)]"

section \<open>The mapper with the locale fallback\<close>

text \<open>
  \<^verbatim>\<open>(typeof errorMsg === "string" ? errorMsg : errorMsg?.message) ?? ""\<close> for the
  result of the English locale's error map.
\<close>

definition fallback_message :: "host \<Rightarrow> issue \<Rightarrow> string" where
  "fallback_message h issue =
     (case localeError h issue of
        MessageString s \<Rightarrow> s
      | MessageObject m \<Rightarrow> m
      | NoMessage \<Rightarrow> '''')"

text \<open>
  The \<^verbatim>\<open>switch\<close> on \<^verbatim>\<open>issue.code\<close>: the value it leaves in \<^verbatim>\<open>message\<close>, or the
  \<^verbatim>\<open>TypeError\<close> it throws. \<open>tr\<close>, \<open>nsv\<close>, \<open>msg\<close> and \<open>frag\<close> are the constants
  \<^verbatim>\<open>t\<close>, \<^verbatim>\<open>ns\<close>, \<^verbatim>\<open>message\<close> (before the switch) and \<^verbatim>\<open>path\<close>.
\<close>

definition switch_issue ::
  "host \<Rightarrow> renderer \<Rightarrow> jsval \<Rightarrow> string \<Rightarrow> props \<Rightarrow> issue \<Rightarrow> thrown + string" where
  "switch_issue h tr nsv msg frag issue =
     (if code issue = ''invalid_type'' then
        (if input issue = JUndefined then
           Inr (render tr ''errors.invalid_type_received_undefined'' (base_entries nsv msg) frag)
         else if input issue = JNull then
           Inr (render tr ''errors.invalid_type_received_null'' (base_entries nsv msg) frag)
         else if input issue = JNum PosInfinity then
           Inr (render tr ''errors.not_finite'' (base_entries nsv msg) frag)
         else if input issue = JDate NaN then
           Inr (render tr ''errors.invalid_date'' (base_entries nsv msg) frag)
         else
           (let rcv = toLocaleLowerCase h (getReceivedDataType (input issue)) in
            Inr (render tr ''errors.invalid_type''
                  ([(''expected'',
                      JStr (tr (''types.'' @ template (expected issue))
                              (obj [(''defaultValue'', optional JStr (expected issue)),
                                    (''ns'', nsv)]))),
                    (''received'',
                      JStr (tr (''types.'' @ rcv)
                              (obj [(''defaultValue'', JStr rcv), (''ns'', nsv)])))]
                   @ base_entries nsv msg)
                  frag)))
      else if code issue = ''invalid_value'' then
        (if inst issue = Some ZodLiteral then
           Inr (render tr ''errors.invalid_literal''
                 ((''expected'', JStr (joinValues h (values' issue) default_separator))
                  # base_entries nsv msg)
                 frag)
         else if inst issue = Some ZodEnum then
           Inr (render tr ''errors.invalid_enum_value''
                 ([(''options'', JStr (joinValues h (values' issue) default_separator)),
                   (''received'', input issue)]
                  @ base_entries nsv msg)
                 frag)
         else Inr msg)
      else if code issue = ''unrecognized_keys'' then
        Inr (render tr ''errors.unrecognized_keys''
              ([(''keys'', JStr (joinValues h (map PStr (keys issue)) '', '')),
                (''count'', JNum (Finite (of_nat (length (keys issue)))))]
               @ base_entries nsv msg)
              frag)
      else if code issue = ''invalid_union'' then
        (case inst issue of
           Some (ZodDiscriminatedUnion opts) \<Rightarrow>
             (case map_options (discriminator_value (template (discriminator issue))) opts of
                Inl e \<Rightarrow> Inl e
              | Inr options \<Rightarrow>
                  Inr (render tr ''errors.invalid_union_discriminator''
                        ((''options'', JStr (joinValues h options default_separator))
                         # base_entries nsv msg)
                        frag))
         | Some ZodUnion \<Rightarrow> Inr (render tr ''errors.invalid_union'' (base_entries nsv msg) frag)
         | _ \<Rightarrow> Inr (render tr ''errors.invalid_union'' (base_entries nsv msg) frag))
      else if code issue = ''invalid_format'' then
        (if format issue = ''date'' then
           Inr (render tr ''errors.invalid_date'' (base_entries nsv msg) frag)
         else if format issue = ''starts_with'' then
           Inr (render tr ''errors.invalid_string.startsWith''
                 ((''startsWith'', prefix issue) # base_entries nsv msg) frag)
         else if format issue = ''ends_with'' then
           Inr (render tr ''errors.invalid_string.endsWith''
                 ((''endsWith'', suffix issue) # base_entries nsv msg) frag)
         else
           Inr (render tr (''errors.invalid_string.'' @ format issue)
                 ((''validation'',
                    JStr (tr (''validations.'' @ format issue)
                            (obj [(''defaultValue'', JStr (format issue)), (''ns'', nsv)])))
                  # base_entries nsv msg)
                 frag))
      else if code issue = ''too_small'' then
        (let m = bound_value h issue (minimum issue) in
         Inr (render tr (bound_key ''too_small'' issue)
               ([(''minimum'', m), (''count'', count_value m)] @ base_entries nsv msg) frag))
      else if code issue = ''too_big'' then
        (let m = bound_value h issue (maximum issue) in
         Inr (render tr (bound_key ''too_big'' issue)
               ([(''maximum'', m), (''count'', count_value m)] @ base_entries nsv msg) frag))
      else if code issue = ''custom'' then
        (case getKeyAndValues (issue_i18n issue) ''errors.custom'' of
           (k, vs) \<Rightarrow> Inr (render tr k (own_props vs @ base_entries nsv msg) frag))
      else if code issue = ''not_multiple_of'' then
        Inr (render tr ''errors.not_multiple_of''
              ((''multipleOf'', JNum (divisor issue)) # base_entries nsv msg) frag)
      else Inr msg)"

definition makeZodI18nMap ::
  "host \<Rightarrow> ZodI18nMapOption option \<Rightarrow> issue \<Rightarrow> thrown + error_map_return" where
  "makeZodI18nMap h opt issue =
     (let tr = merged_t h opt;
          nsv = namespace_value (merged_ns opt);
          hpo = merged_handlePath opt;
          msg = fallback_message h issue;
          frag = path_fragment h tr hpo issue
      in case switch_issue h tr nsv msg frag issue of
           Inl e \<Rightarrow> Inl e
         | Inr m \<Rightarrow> Inr (MessageObject m))"

section \<open>The mapper of packages/core/src/index.ts\<close>

text \<open>\<^verbatim>\<open>issue.message ?? "Invalid value"\<close>.\<close>

definition fallback_message_core :: "issue \<Rightarrow> string" where
  "fallback_message_core issue = (case message issue of None \<Rightarrow> ''Invalid value'' | Some m \<Rightarrow> m)"

text \<open>The \<^verbatim>\<open>switch\<close> of this variant; nothing in it throws.\<close>

definition switch_issue_core ::
  "host \<Rightarrow> renderer \<Rightarrow> jsval \<Rightarrow> string \<Rightarrow> props \<Rightarrow> issue \<Rightarrow> string" where
  "switch_issue_core h tr nsv msg frag issue =
     (if code issue = ''invalid_type'' then
        (if expected issue = Some ''undefined'' then
           render tr ''errors.invalid_type_received_undefined'' (base_entries nsv msg) frag
         else if expected issue = Some ''null'' then
           render tr ''errors.invalid_type_received_null'' (base_entries nsv msg) frag
         else
           render tr ''errors.invalid_type''
             ([(''expected'',
                 JStr (tr (''types.'' @ template (expected issue))
                         (obj [(''defaultValue'', optional JStr (expected issue)),
                               (''ns'', nsv)]))),
               (''received'',
                 JStr (tr (''types.'' @ template (received issue))
                         (obj [(''defaultValue'', optional JStr (received issue)),
                               (''ns'', nsv)])))]
              @ base_entries nsv msg)
             frag)
      else if code issue = ''invalid_value'' then
        render tr ''errors.invalid_literal''
          ((''expected'', JSON_stringify h jsonStringifyReplacer (optional JStr (expected issue)))
           # base_entries nsv msg)
          frag
      else if code issue = ''unrecognized_keys'' then
        render tr ''errors.unrecognized_keys''
          ([(''keys'', JStr (joinValues_core h (map PStr (keys issue)) '', '')),
            (''count'', JNum (Finite (of_nat (length (keys issue)))))]
           @ base_entries nsv msg)
          frag
      else if code issue = ''invalid_union'' then
        render tr ''errors.invalid_union'' (base_entries nsv msg) frag
      else if code issue = ''invalid_format'' then
        (if format issue = ''date'' then
           render tr ''errors.invalid_date'' (base_entries nsv msg) frag
         else if format issue = ''starts_with'' then
           render tr ''errors.invalid_string.startsWith''
             ((''startsWith'', JStr (format issue)) # base_entries nsv msg) frag
         else if format issue = ''ends_with'' then
           render tr ''errors.invalid_string.endsWith''
             ((''endsWith'', JStr (format issue)) # base_entries nsv msg) frag
         else
           render tr (''errors.invalid_string.'' @ format issue)
             ((''validation'',
                JStr (tr (''validations.'' @ format issue)
                        (obj [(''defaultValue'', JStr (format issue)), (''ns'', nsv)])))
              # base_entries nsv msg)
             frag)
      else if code issue = ''too_small'' then
        (let m = bound_value h issue (minimum issue) in
         render tr (bound_key ''too_small'' issue)
           ([(''minimum'', m), (''count'', count_value m)] @ base_entries nsv msg) frag)
      else if code issue = ''too_big'' then
        (let m = bound_value h issue (maximum issue) in
         render tr (bound_key ''too_big'' issue)
           ([(''maximum'', m), (''count'', count_value m)] @ base_entries nsv msg) frag)
      else if code issue = ''custom'' then
        (case getKeyAndValues (issue_i18n issue) ''errors.custom'' of
           (k, vs) \<Rightarrow> render tr k (own_props vs @ base_entries nsv msg) frag)
      else if code issue = ''not_multiple_of'' then
        render tr ''errors.not_multiple_of''
          ((''multipleOf'', JNum (divisor issue)) # base_entries nsv msg) frag
      else msg)"

definition makeZodI18nMap_core :: "host \<Rightarrow> ZodI18nMapOption option \<Rightarrow> issue \<Rightarrow> error_map_return" where
  "makeZodI18nMap_core h opt issue =
     (let tr = merged_t h opt;
          nsv = namespace_value (merged_ns opt);
          hpo = merged_handlePath opt;
          msg = fallback_message_core issue;
          frag = path_fragment_core h tr hpo issue
      in MessageObject (switch_issue_core h tr nsv msg frag issue))"

section \<open>Renderers and a host for closed instances\<close>

text \<open>
  A renderer that shows the key it is given and the string it finds under one parameter
  name. The host below stands in for the collaborators in the closed instances: its
  number functions are those of JavaScript on the integers below 2^53, its
  \<^verbatim>\<open>JSON.stringify\<close> on \<^verbatim>\<open>undefined\<close>, its \<^verbatim>\<open>toLocaleLowerCase\<close> on strings
  without capital letters.
\<close>

definition show_param :: "string \<Rightarrow> renderer" where
  "show_param name k ps = k @ '':'' @ (case get_prop ps name of Prim (PStr s) \<Rightarrow> s | _ \<Rightarrow> '''')"

definition sample_host :: host where
  "sample_host =
     \<lparr>i18next_t = show_param ''defaultValue'',
      localeError = (\<lambda>i. MessageString ''Invalid input''),
      number_toString = (\<lambda>n. case n of
                                Finite r \<Rightarrow> bigint_toString \<lfloor>r\<rfloor>
                              | NaN \<Rightarrow> ''NaN''
                              | PosInfinity \<Rightarrow> ''Infinity''
                              | NegInfinity \<Rightarrow> ''-Infinity''),
      Number_of_bigint = (\<lambda>i. Finite (of_int i)),
      JSON_stringify = (\<lambda>r v. JUndefined),
      toLocaleLowerCase = (\<lambda>s. s)\<rparr>"

definition sample_issue :: issue where
  "sample_issue =
     \<lparr>code = ''custom'', input = JStr ''x'', path = None, message = None, inst = None,
      expected = None, received = None, values' = [], keys = [], discriminator = None,
      format = '''', prefix = JUndefined, suffix = JUndefined, origin = '''',
      minimum = Number (Finite 0), maximum = Number (Finite 0), inclusive = False,
      exact = None, params = None, divisor = Finite 1\<rparr>"

section \<open>Properties of property bags and of the common parts\<close>

lemma get_prop_set_prop: "get_prop (set_prop k v ps) k' = (if k' = k then v else get_prop ps k')"
  by (induction ps) auto

lemma get_prop_spread_other: "\<not> has_prop qs k \<Longrightarrow> get_prop (spread ps qs) k = get_prop ps k"
  by (induction qs arbitrary: ps) (auto simp: get_prop_set_prop split: if_splits)

lemma spread_append: "spread ps (qs @ rs) = spread (spread ps qs) rs"
  by (induction qs arbitrary: ps) auto

lemma get_prop_absent: "\<not> has_prop ps k \<Longrightarrow> get_prop ps k = JUndefined"
  by (induction ps) (auto split: if_splits)

lemma read_property_absent: "\<not> has_property v k \<Longrightarrow> read_property v k = JUndefined"
  by (auto simp: has_property_def read_property_def get_prop_absent split: if_splits)

lemma isRecord_undefined: "\<not> isRecord JUndefined"
  by (simp add: isRecord_def)

lemma isRecord_typeof: "isRecord p \<Longrightarrow> typeof p = ''object''"
  by (simp add: isRecord_def split: if_splits)

text \<open>
  \<^verbatim>\<open>typeof x === "string"\<close> holds exactly of the string primitives. Arrays and dates
  are records for \<^verbatim>\<open>isRecord\<close>; \<^verbatim>\<open>null\<close>, functions and objects with an inherited
  enumerable property are not.
\<close>

lemma typeof_string: "(typeof v = ''string'') = (\<exists>s. v = JStr s)"
  by (induction v rule: typeof.induct) auto

lemma isRecord_examples:
  "isRecord (JArray [JStr ''a''])"
  "isRecord (JDate NaN)"
  "isRecord (JObject NullPrototype [(''key'', JStr ''k'')] [])"
  "\<not> isRecord JNull"
  "\<not> isRecord (JFunction ''f'')"
  "\<not> isRecord (JObject (ClassPrototype ''C'') [(''own'', JNull)] [(''inherited'', JNull)])"
  by (simp_all add: isRecord_def for_in_keys_def hasOwnProperty_def)

lemma getKeyAndValues_string: "getKeyAndValues (JStr s) d = (s, empty_object)"
  by (simp add: getKeyAndValues_def)

lemma getKeyAndValues_not_string:
  assumes "typeof p \<noteq> ''string''"
  shows "getKeyAndValues p d =
     (if isRecord p
      then (let k = (if has_property p ''key''
                     then (case read_property p ''key'' of
                             Prim (PStr s) \<Rightarrow> s
                           | _ \<Rightarrow> d)
                     else d);
                vs = (if has_property p ''values''
                      then (if isRecord (read_property p ''values'')
                            then read_property p ''values''
                            else empty_object)
                      else empty_object)
            in (k, vs))
      else (d, empty_object))"
proof (cases p)
  case (Prim x)
  with assms show ?thesis
    by (cases x) (simp_all add: getKeyAndValues_def)
qed (simp_all add: getKeyAndValues_def)

lemma getKeyAndValues_other:
  "typeof p \<noteq> ''string'' \<Longrightarrow> \<not> isRecord p \<Longrightarrow> getKeyAndValues p d = (d, empty_object)"
  by (simp add: getKeyAndValues_not_string)

lemma getKeyAndValues_record:
  assumes "isRecord p"
  shows "getKeyAndValues p d =
     ((case read_property p ''key'' of Prim (PStr s) \<Rightarrow> s | _ \<Rightarrow> d),
      (if isRecord (read_property p ''values'') then read_property p ''values'' else empty_object))"
proof -
  have t: "typeof p \<noteq> ''string''"
    using isRecord_typeof [OF assms] by simp
  have k: "\<not> has_property p ''key'' \<Longrightarrow> read_property p ''key'' = JUndefined"
    by (rule read_property_absent)
  have v: "\<not> has_property p ''values'' \<Longrightarrow> \<not> isRecord (read_property p ''values'')"
    by (simp add: read_property_absent isRecord_undefined)
  show ?thesis
    using assms k v by (auto simp: getKeyAndValues_not_string [OF t] Let_def)
qed

text \<open>The path fragment has the two properties \<^verbatim>\<open>context\<close> and \<^verbatim>\<open>path\<close>, or none.\<close>

lemma path_entries_eq:
  "path_entries tr hp joined =
     [(''context'', optional JStr (context' hp)),
      (''path'', JStr (tr (path_key hp joined)
                  [(''ns'', optional namespace_value (ns' hp)),
                   (''defaultValue'', optional JStr joined)]))]"
  by (simp add: path_entries_def obj_def)

lemma has_prop_path_fragment:
  "has_prop (path_fragment h tr hpo issue) k \<Longrightarrow> k = ''context'' \<or> k = ''path''"
  by (auto simp: path_fragment_def path_entries_eq split: option.splits if_splits)

lemma has_prop_path_fragment_core:
  "has_prop (path_fragment_core h tr hpo issue) k \<Longrightarrow> k = ''context'' \<or> k = ''path''"
  by (auto simp: path_fragment_core_def path_entries_eq split: option.splits if_splits)

lemma get_prop_spread_path_fragment:
  "k \<noteq> ''context'' \<Longrightarrow> k \<noteq> ''path'' \<Longrightarrow>
   get_prop (spread ps (path_fragment h tr hpo issue)) k = get_prop ps k"
  using has_prop_path_fragment [of h tr hpo issue k] by (auto intro: get_prop_spread_other)

lemma get_prop_spread_path_fragment_core:
  "k \<noteq> ''context'' \<Longrightarrow> k \<noteq> ''path'' \<Longrightarrow>
   get_prop (spread ps (path_fragment_core h tr hpo issue)) k = get_prop ps k"
  using has_prop_path_fragment_core [of h tr hpo issue k] by (auto intro: get_prop_spread_other)

text \<open>
  Path handling is disabled exactly by \<^verbatim>\<open>handlePath: false\<close>; when it is enabled, the
  context tag and the namespace of the path are the configured ones, with the defaults
  \<^verbatim>\<open>"with_path"\<close> and the namespace of the mapper.
\<close>

lemma merged_handlePath_None:
  "(merged_handlePath opt = None) = (option_handlePath opt = Some HandlePathFalse)"
  by (simp add: merged_handlePath_def split: option.splits handlePath_setting.splits)

lemma merged_handlePath_default:
  "option_handlePath opt = None \<Longrightarrow>
   merged_handlePath opt = Some \<lparr>context' = Some ''with_path'', ns' = Some (merged_ns opt), keyPrefix = None\<rparr>"
  by (simp add: merged_handlePath_def default_handlePath_def merged_ns_def)

lemma merged_handlePath_configured:
  "option_handlePath opt = Some (HandlePath hp) \<Longrightarrow>
   merged_handlePath opt =
     Some \<lparr>context' = Some (case context' hp of None \<Rightarrow> ''with_path'' | Some c \<Rightarrow> c),
           ns' = Some (case ns' hp of None \<Rightarrow> merged_ns opt | Some n \<Rightarrow> n),
           keyPrefix = keyPrefix hp\<rparr>"
  by (simp add: merged_handlePath_def default_handlePath_def merged_ns_def
      spread_HandlePathOption_def split: option.splits)

section \<open>Properties of the mapper with the locale fallback\<close>

text \<open>
  In this variant the fragment is empty exactly when path handling is disabled or the path
  is absent or empty; otherwise it holds the context tag and the rendered path.
\<close>

lemma path_fragment_empty_iff:
  "(path_fragment h tr hpo issue = []) = (hpo = None \<or> path issue = None \<or> path issue = Some [])"
  by (auto simp: path_fragment_def path_entries_eq split: option.splits)

lemma path_fragment_nonempty:
  "path_fragment h tr (Some hp) (issue\<lparr>path := Some (x # xs)\<rparr>) =
     [(''context'', optional JStr (context' hp)),
      (''path'', JStr (tr (join (filter_Boolean [keyPrefix hp, Some (path_join h (x # xs))]) ''.'')
                  [(''ns'', optional namespace_value (ns' hp)),
                   (''defaultValue'', JStr (path_join h (x # xs)))]))]"
  by (simp add: path_fragment_def path_entries_eq path_key_def)

text \<open>An \<^verbatim>\<open>invalid_type\<close> issue whose input is \<^verbatim>\<open>undefined\<close>.\<close>

lemma invalid_type_undefined_input:
  "makeZodI18nMap h opt (issue\<lparr>code := ''invalid_type'', input := JUndefined\<rparr>) =
     Inr (MessageObject
       (merged_t h opt ''errors.invalid_type_received_undefined''
          (spread [(''ns'', namespace_value (merged_ns opt)),
                   (''defaultValue'',
                      JStr (fallback_message h (issue\<lparr>code := ''invalid_type'', input := JUndefined\<rparr>)))]
             (path_fragment h (merged_t h opt) (merged_handlePath opt)
                (issue\<lparr>code := ''invalid_type'', input := JUndefined\<rparr>)))))"
  by (simp add: makeZodI18nMap_def switch_issue_def Let_def render_def base_entries_def obj_def)

text \<open>An \<^verbatim>\<open>invalid_format\<close> issue of format \<^verbatim>\<open>starts_with\<close> or \<^verbatim>\<open>ends_with\<close>.\<close>

lemma invalid_format_starts_with:
  "let i = issue\<lparr>code := ''invalid_format'', format := ''starts_with''\<rparr>;
       args = spread [(''startsWith'', prefix issue),
                      (''ns'', namespace_value (merged_ns opt)),
                      (''defaultValue'', JStr (fallback_message h i))]
                (path_fragment h (merged_t h opt) (merged_handlePath opt) i)
   in makeZodI18nMap h opt i =
        Inr (MessageObject (merged_t h opt ''errors.invalid_string.startsWith'' args))
      \<and> get_prop args ''startsWith'' = prefix issue"
  by (simp add: makeZodI18nMap_def switch_issue_def Let_def render_def base_entries_def obj_def
      get_prop_spread_path_fragment)

lemma invalid_format_ends_with:
  "let i = issue\<lparr>code := ''invalid_format'', format := ''ends_with''\<rparr>;
       args = spread [(''endsWith'', suffix issue),
                      (''ns'', namespace_value (merged_ns opt)),
                      (''defaultValue'', JStr (fallback_message h i))]
                (path_fragment h (merged_t h opt) (merged_handlePath opt) i)
   in makeZodI18nMap h opt i =
        Inr (MessageObject (merged_t h opt ''errors.invalid_string.endsWith'' args))
      \<and> get_prop args ''endsWith'' = suffix issue"
  by (simp add: makeZodI18nMap_def switch_issue_def Let_def render_def base_entries_def obj_def
      get_prop_spread_path_fragment)

text \<open>An \<^verbatim>\<open>invalid_value\<close> issue of a literal and of an enum.\<close>

lemma invalid_value_literal:
  "let i = issue\<lparr>code := ''invalid_value'', inst := Some ZodLiteral\<rparr>;
       args = spread [(''expected'', JStr (joinValues h (values' issue) '' | '')),
                      (''ns'', namespace_value (merged_ns opt)),
                      (''defaultValue'', JStr (fallback_message h i))]
                (path_fragment h (merged_t h opt) (merged_handlePath opt) i)
   in makeZodI18nMap h opt i = Inr (MessageObject (merged_t h opt ''errors.invalid_literal'' args))
      \<and> get_prop args ''expected'' = JStr (joinValues h (values' issue) '' | '')"
  by (simp add: makeZodI18nMap_def switch_issue_def Let_def render_def base_entries_def obj_def
      get_prop_spread_path_fragment default_separator_def)

lemma invalid_value_enum:
  "let i = issue\<lparr>code := ''invalid_value'', inst := Some ZodEnum\<rparr>;
       args = spread [(''options'', JStr (joinValues h (values' issue) '' | '')),
                      (''received'', input issue),
                      (''ns'', namespace_value (merged_ns opt)),
                      (''defaultValue'', JStr (fallback_message h i))]
                (path_fragment h (merged_t h opt) (merged_handlePath opt) i)
   in makeZodI18nMap h opt i = Inr (MessageObject (merged_t h opt ''errors.invalid_enum_value'' args))
      \<and> get_prop args ''options'' = JStr (joinValues h (values' issue) '' | '')
      \<and> get_prop args ''received'' = input issue"
  by (simp add: makeZodI18nMap_def switch_issue_def Let_def render_def base_entries_def obj_def
      get_prop_spread_path_fragment default_separator_def)

lemma joinValues_quotes: "joinValues h [PStr ''a'', PStr ''b''] '' | '' = [CHR 0x27] @ ''a'' @ [CHR 0x27] @ '' | '' @ [CHR 0x27] @ ''b'' @ [CHR 0x27]"
  by (simp add: joinValues_def array_join_def)

text \<open>
  C5. For a \<^verbatim>\<open>too_small\<close> issue both variants render the key
  \<^verbatim>\<open>errors.too_small.{origin}.{exact|inclusive|not_inclusive}\<close>, chosen by \<^verbatim>\<open>exact\<close>
  first and by \<^verbatim>\<open>inclusive\<close> otherwise. The parameter \<^verbatim>\<open>minimum\<close> is the issue's
  minimum, converted to a date when the origin is \<^verbatim>\<open>"date"\<close>; the parameter
  \<^verbatim>\<open>count\<close> is that (possibly converted) minimum when it is a number, and \<^verbatim>\<open>undefined\<close>
  otherwise.
\<close>

theorem too_small_key_and_parameters:
  "let i = issue\<lparr>code := ''too_small''\<rparr>;
       k = ''errors.too_small.'' @ origin issue @ ''.'' @
             (if exact issue = Some True then ''exact''
              else if inclusive issue then ''inclusive''
              else ''not_inclusive'');
       m = (if origin issue = ''date'' then JDate (TimeClip (Number_of h (minimum issue)))
            else numeric_value (minimum issue));
       c = (if typeof m = ''number'' then m else JUndefined);
       nsv = namespace_value (merged_ns opt);
       args = spread [(''minimum'', m), (''count'', c), (''ns'', nsv),
                      (''defaultValue'', JStr (fallback_message h i))]
                (path_fragment h (merged_t h opt) (merged_handlePath opt) i);
       args_core = spread [(''minimum'', m), (''count'', c), (''ns'', nsv),
                           (''defaultValue'', JStr (fallback_message_core i))]
                     (path_fragment_core h (merged_t h opt) (merged_handlePath opt) i)
   in makeZodI18nMap h opt i = Inr (MessageObject (merged_t h opt k args))
      \<and> makeZodI18nMap_core h opt i = MessageObject (merged_t h opt k args_core)
      \<and> get_prop args ''minimum'' = m \<and> get_prop args ''count'' = c
      \<and> get_prop args_core ''minimum'' = m \<and> get_prop args_core ''count'' = c
      \<and> c = (if origin issue = ''date'' then JUndefined
              else case minimum issue of Number n \<Rightarrow> JNum n | BigInt b \<Rightarrow> JUndefined)"
proof -
  have c: "count_value (bound_value h issue (minimum issue)) =
             (if origin issue = ''date'' then JUndefined
              else case minimum issue of Number n \<Rightarrow> JNum n | BigInt b \<Rightarrow> JUndefined)"
    by (cases "minimum issue") (simp_all add: count_value_def bound_value_def new_Date_def)
  have m: "bound_value h (issue\<lparr>code := ''too_small''\<rparr>) (minimum issue) = bound_value h issue (minimum issue)"
    by (simp add: bound_value_def)
  have k: "bound_key ''too_small'' (issue\<lparr>code := ''too_small''\<rparr>) =
             ''errors.too_small.'' @ origin issue @ ''.'' @
               (if exact issue = Some True then ''exact''
                else if inclusive issue then ''inclusive''
                else ''not_inclusive'')"
    by (simp add: bound_key_def)
  have rich: "switch_issue h tr nsv msg frag (issue\<lparr>code := ''too_small''\<rparr>) =
      Inr (tr (bound_key ''too_small'' (issue\<lparr>code := ''too_small''\<rparr>))
             (spread [(''minimum'', bound_value h issue (minimum issue)),
                      (''count'', count_value (bound_value h issue (minimum issue))),
                      (''ns'', nsv), (''defaultValue'', JStr msg)] frag))" for tr nsv msg frag
    by (simp add: switch_issue_def Let_def render_def base_entries_def obj_def m)
  have core: "switch_issue_core h tr nsv msg frag (issue\<lparr>code := ''too_small''\<rparr>) =
      tr (bound_key ''too_small'' (issue\<lparr>code := ''too_small''\<rparr>))
         (spread [(''minimum'', bound_value h issue (minimum issue)),
                  (''count'', count_value (bound_value h issue (minimum issue))),
                  (''ns'', nsv), (''defaultValue'', JStr msg)] frag)" for tr nsv msg frag
    by (simp add: switch_issue_core_def Let_def render_def base_entries_def obj_def m)
  have bv: "bound_value h issue (minimum issue) =
      (if origin issue = ''date'' then JDate (TimeClip (Number_of h (minimum issue)))
       else numeric_value (minimum issue))"
    by (simp add: bound_value_def new_Date_def)
  have cv: "count_value b = (if typeof b = ''number'' then b else JUndefined)" for b
    by (simp add: count_value_def)
  show ?thesis
    unfolding Let_def makeZodI18nMap_def makeZodI18nMap_core_def rich core k
    using c
    by (simp add: get_prop_spread_path_fragment get_prop_spread_path_fragment_core bv cv)
qed

section \<open>Properties of the mapper of packages/core/src/index.ts\<close>

text \<open>
  C1. In this variant the branch of \<^verbatim>\<open>invalid_type\<close> is chosen by
  \<^verbatim>\<open>issue.expected\<close>, not by the input: an issue whose input is \<^verbatim>\<open>undefined\<close> and
  whose expected type is \<^verbatim>\<open>"string"\<close> is rendered under \<^verbatim>\<open>errors.invalid_type\<close>, not
  under \<^verbatim>\<open>errors.invalid_type_received_undefined\<close>.
\<close>

theorem core_invalid_type_undefined_input:
  "makeZodI18nMap_core h
     (Some \<lparr>t = Some tr, ns = None, handlePath = Some HandlePathFalse\<rparr>)
     (issue\<lparr>code := ''invalid_type'', input := JUndefined, expected := Some ''string'',
            received := None, message := None\<rparr>)
   = MessageObject
       (tr ''errors.invalid_type''
          [(''expected'', JStr (tr ''types.string''
                                 [(''defaultValue'', JStr ''string''), (''ns'', JStr ''zod'')])),
           (''received'', JStr (tr ''types.undefined''
                                 [(''defaultValue'', JUndefined), (''ns'', JStr ''zod'')])),
           (''ns'', JStr ''zod''),
           (''defaultValue'', JStr ''Invalid value'')])"
  by (simp add: makeZodI18nMap_core_def switch_issue_core_def Let_def render_def base_entries_def
      obj_def merged_ns_def merged_handlePath_def defaultNs_def fallback_message_core_def
      path_fragment_core_def)

text \<open>
  C2. In this variant the fragment is built whenever the path is present, also when it is
  empty: with the default options, an issue with the path \<^verbatim>\<open>[]\<close> is rendered with
  \<^verbatim>\<open>context: "with_path"\<close> and with the \<^verbatim>\<open>path\<close> that the renderer gives for the
  empty key.
\<close>

theorem core_empty_path_fragment:
  "path_fragment_core h tr (merged_handlePath None) (issue\<lparr>path := Some []\<rparr>) =
     [(''context'', JStr ''with_path''),
      (''path'', JStr (tr [] [(''ns'', JStr ''zod''), (''defaultValue'', JStr [])]))]
   \<and> makeZodI18nMap_core h
         (Some \<lparr>t = Some tr, ns = None, handlePath = None\<rparr>)
         (issue\<lparr>code := ''invalid_union'', path := Some [], message := None\<rparr>)
       = MessageObject
           (tr ''errors.invalid_union''
              [(''ns'', JStr ''zod''),
               (''defaultValue'', JStr ''Invalid value''),
               (''context'', JStr ''with_path''),
               (''path'', JStr (tr [] [(''ns'', JStr ''zod''), (''defaultValue'', JStr [])]))])"
  by (simp add: makeZodI18nMap_core_def switch_issue_core_def Let_def render_def base_entries_def
      obj_def merged_ns_def merged_handlePath_def default_handlePath_def defaultNs_def
      fallback_message_core_def path_fragment_core_def path_entries_eq path_key_def
      path_join_def array_join_def)

text \<open>
  C3. In this variant the parameters \<^verbatim>\<open>startsWith\<close> and \<^verbatim>\<open>endsWith\<close> are
  \<^verbatim>\<open>issue.format\<close>, that is the strings \<^verbatim>\<open>"starts_with"\<close> and \<^verbatim>\<open>"ends_with"\<close>, not
  the prefix and the suffix of the issue.
\<close>

theorem core_starts_with_ends_with:
  "makeZodI18nMap_core h
     (Some \<lparr>t = Some tr, ns = None, handlePath = Some HandlePathFalse\<rparr>)
     (issue\<lparr>code := ''invalid_format'', format := ''starts_with'', prefix := JStr ''abc'',
            message := None\<rparr>)
   = MessageObject
       (tr ''errors.invalid_string.startsWith''
          [(''startsWith'', JStr ''starts_with''),
           (''ns'', JStr ''zod''),
           (''defaultValue'', JStr ''Invalid value'')])
   \<and> makeZodI18nMap_core h
     (Some \<lparr>t = Some tr, ns = None, handlePath = Some HandlePathFalse\<rparr>)
     (issue\<lparr>code := ''invalid_format'', format := ''ends_with'', suffix := JStr ''xyz'',
            message := None\<rparr>)
   = MessageObject
       (tr ''errors.invalid_string.endsWith''
          [(''endsWith'', JStr ''ends_with''),
           (''ns'', JStr ''zod''),
           (''defaultValue'', JStr ''Invalid value'')])"
  by (simp add: makeZodI18nMap_core_def switch_issue_core_def Let_def render_def base_entries_def
      obj_def merged_ns_def merged_handlePath_def defaultNs_def fallback_message_core_def
      path_fragment_core_def)

text \<open>
  C4. In this variant every \<^verbatim>\<open>invalid_value\<close> issue is rendered under
  \<^verbatim>\<open>errors.invalid_literal\<close>, with \<^verbatim>\<open>expected\<close> the JSON text of \<^verbatim>\<open>issue.expected\<close>:
  an issue of an enum with the values \<^verbatim>\<open>"a"\<close> and \<^verbatim>\<open>"b"\<close> and the input \<^verbatim>\<open>"c"\<close> gets
  neither the key \<^verbatim>\<open>errors.invalid_enum_value\<close> nor the parameters \<^verbatim>\<open>options\<close> and
  \<^verbatim>\<open>received\<close>.
\<close>

theorem core_invalid_value_enum:
  "makeZodI18nMap_core h
     (Some \<lparr>t = Some tr, ns = None, handlePath = Some HandlePathFalse\<rparr>)
     (issue\<lparr>code := ''invalid_value'', inst := Some ZodEnum, values' := [PStr ''a'', PStr ''b''],
            input := JStr ''c'', expected := None, message := None\<rparr>)
   = MessageObject
       (tr ''errors.invalid_literal''
          [(''expected'', JSON_stringify h jsonStringifyReplacer JUndefined),
           (''ns'', JStr ''zod''),
           (''defaultValue'', JStr ''Invalid value'')])"
  by (simp add: makeZodI18nMap_core_def switch_issue_core_def Let_def render_def base_entries_def
      obj_def merged_ns_def merged_handlePath_def defaultNs_def fallback_message_core_def
      path_fragment_core_def)

section \<open>Properties of both variants\<close>

text \<open>
  The \<^verbatim>\<open>custom\<close> branch of both variants, for any \<^verbatim>\<open>params.i18n\<close>: the key and the
  values are those of \<^verbatim>\<open>getKeyAndValues\<close>, and the parameters are
  \<^verbatim>\<open>{ ...values, ns, defaultValue: message, ...path }\<close>.
\<close>

lemma custom_switch:
  "switch_issue h tr nsv msg frag (issue\<lparr>code := ''custom'', params := Some ps\<rparr>) =
     Inr (tr (fst (getKeyAndValues (get_prop ps ''i18n'') ''errors.custom''))
            (spread (spread (spread [] (own_props (snd (getKeyAndValues (get_prop ps ''i18n'') ''errors.custom''))))
                       [(''ns'', nsv), (''defaultValue'', JStr msg)]) frag))"
  by (simp add: switch_issue_def render_def base_entries_def obj_def issue_i18n_def spread_append
      split: prod.splits)

lemma custom_switch_core:
  "switch_issue_core h tr nsv msg frag (issue\<lparr>code := ''custom'', params := Some ps\<rparr>) =
     tr (fst (getKeyAndValues (get_prop ps ''i18n'') ''errors.custom''))
        (spread (spread (spread [] (own_props (snd (getKeyAndValues (get_prop ps ''i18n'') ''errors.custom''))))
                   [(''ns'', nsv), (''defaultValue'', JStr msg)]) frag)"
  by (simp add: switch_issue_core_def render_def base_entries_def obj_def issue_i18n_def spread_append
      split: prod.splits)

text \<open>
  C6, as the code has it. For a \<^verbatim>\<open>custom\<close> issue whose \<^verbatim>\<open>params.i18n\<close> is a record,
  both variants render the record's \<^verbatim>\<open>key\<close> when it is a string and
  \<^verbatim>\<open>errors.custom\<close> otherwise. The record's \<^verbatim>\<open>values\<close> (when they are a record) are
  spread first; \<^verbatim>\<open>ns\<close>, \<^verbatim>\<open>defaultValue\<close> and the path fragment are written after
  them. So the renderer receives the mapper's \<^verbatim>\<open>ns\<close> and \<^verbatim>\<open>defaultValue\<close> whatever
  the values hold under these names, and every value under a name other than \<^verbatim>\<open>ns\<close>,
  \<^verbatim>\<open>defaultValue\<close>, \<^verbatim>\<open>context\<close> and \<^verbatim>\<open>path\<close> as it was supplied.
\<close>

theorem custom_record_key_and_values:
  assumes "isRecord p"
  shows
  "let i = issue\<lparr>code := ''custom'', params := Some ((''i18n'', p) # ps)\<rparr>;
       k = (case read_property p ''key'' of Prim (PStr s) \<Rightarrow> s | _ \<Rightarrow> ''errors.custom'');
       vs = (if isRecord (read_property p ''values'')
             then own_props (read_property p ''values'') else []);
       nsv = namespace_value (merged_ns opt);
       args = spread (spread (obj vs) [(''ns'', nsv), (''defaultValue'', JStr (fallback_message h i))])
                (path_fragment h (merged_t h opt) (merged_handlePath opt) i);
       args_core = spread (spread (obj vs) [(''ns'', nsv), (''defaultValue'', JStr (fallback_message_core i))])
                     (path_fragment_core h (merged_t h opt) (merged_handlePath opt) i)
   in makeZodI18nMap h opt i = Inr (MessageObject (merged_t h opt k args))
      \<and> makeZodI18nMap_core h opt i = MessageObject (merged_t h opt k args_core)
      \<and> get_prop args ''ns'' = nsv
      \<and> get_prop args ''defaultValue'' = JStr (fallback_message h i)
      \<and> get_prop args_core ''ns'' = nsv
      \<and> get_prop args_core ''defaultValue'' = JStr (fallback_message_core i)
      \<and> (\<forall>n. n \<notin> {''ns'', ''defaultValue'', ''context'', ''path''} \<longrightarrow>
             get_prop args n = get_prop (obj vs) n \<and> get_prop args_core n = get_prop (obj vs) n)"
proof -
  have kv: "getKeyAndValues (get_prop ((''i18n'', p) # ps) ''i18n'') ''errors.custom'' =
      ((case read_property p ''key'' of Prim (PStr s) \<Rightarrow> s | _ \<Rightarrow> ''errors.custom''),
       (if isRecord (read_property p ''values'') then read_property p ''values'' else empty_object))"
    using getKeyAndValues_record [OF assms] by simp
  have vs: "own_props (if isRecord (read_property p ''values'') then read_property p ''values'' else empty_object)
      = (if isRecord (read_property p ''values'') then own_props (read_property p ''values'') else [])"
    by simp
  have other: "n \<notin> {''ns'', ''defaultValue'', ''context'', ''path''} \<Longrightarrow>
      get_prop (spread xs [(''ns'', a), (''defaultValue'', b)]) n = get_prop xs n" for n xs a b
    by (simp add: get_prop_set_prop)
  show ?thesis
    unfolding Let_def makeZodI18nMap_def makeZodI18nMap_core_def custom_switch custom_switch_core kv
      fst_conv snd_conv vs
    by (simp add: obj_def get_prop_spread_path_fragment get_prop_spread_path_fragment_core
        get_prop_set_prop)
qed

theorem custom_record_key_and_values_witness:
  "makeZodI18nMap sample_host
     (Some \<lparr>t = Some (show_param ''x''), ns = None, handlePath = Some HandlePathFalse\<rparr>)
     (sample_issue\<lparr>code := ''custom'',
        params := Some [(''i18n'',
          JObject ObjectPrototype
            [(''key'', JStr ''my.key''),
             (''values'', JObject ObjectPrototype [(''x'', JStr ''1'')] [])] [])]\<rparr>)
   = Inr (MessageObject ''my.key:1'')"
proof -
  have r: "isRecord (JObject ObjectPrototype
            [(''key'', JStr ''my.key''),
             (''values'', JObject ObjectPrototype [(''x'', JStr ''1'')] [])] [])"
    by (simp add: isRecord_def for_in_keys_def hasOwnProperty_def)
  show ?thesis
    using custom_record_key_and_values [OF r, where issue = sample_issue and ps = "[]"
        and opt = "Some \<lparr>t = Some (show_param ''x''), ns = None, handlePath = Some HandlePathFalse\<rparr>"
        and h = sample_host]
    by (simp add: Let_def read_property_def isRecord_def for_in_keys_def hasOwnProperty_def
        obj_def merged_handlePath_def path_fragment_def show_param_def)
qed

text \<open>
  C6, as it is stated, fails: values \<^verbatim>\<open>{ ns: "mine" }\<close> do not override the namespace.
  With a renderer that shows the \<^verbatim>\<open>ns\<close> it receives, both variants show the mapper's
  \<^verbatim>\<open>"zod"\<close>.
\<close>

theorem custom_values_do_not_override_ns:
  "makeZodI18nMap sample_host
     (Some \<lparr>t = Some (show_param ''ns''), ns = None, handlePath = Some HandlePathFalse\<rparr>)
     (sample_issue\<lparr>code := ''custom'',
        params := Some [(''i18n'',
          JObject ObjectPrototype
            [(''key'', JStr ''my.key''),
             (''values'', JObject ObjectPrototype [(''ns'', JStr ''mine'')] [])] [])]\<rparr>)
   = Inr (MessageObject ''my.key:zod'')
   \<and> makeZodI18nMap_core sample_host
     (Some \<lparr>t = Some (show_param ''ns''), ns = None, handlePath = Some HandlePathFalse\<rparr>)
     (sample_issue\<lparr>code := ''custom'',
        params := Some [(''i18n'',
          JObject ObjectPrototype
            [(''key'', JStr ''my.key''),
             (''values'', JObject ObjectPrototype [(''ns'', JStr ''mine'')] [])] [])]\<rparr>)
   = MessageObject ''my.key:zod''"
  by (simp add: makeZodI18nMap_def makeZodI18nMap_core_def custom_switch custom_switch_core
      getKeyAndValues_def isRecord_def for_in_keys_def hasOwnProperty_def has_property_def
      read_property_def Let_def merged_handlePath_def merged_ns_def defaultNs_def
      path_fragment_def path_fragment_core_def show_param_def)

text \<open>
  C10. When \<^verbatim>\<open>params.i18n\<close> is a string, that string is the key and the values are empty;
  when it is neither a string nor a record, the key is \<^verbatim>\<open>errors.custom\<close> and the values
  are empty. In both cases the renderer receives \<^verbatim>\<open>ns\<close>, \<^verbatim>\<open>defaultValue\<close> and the path
  fragment only.
\<close>

theorem custom_string_or_other:
  "getKeyAndValues (JStr s) d = (s, empty_object)
   \<and> (typeof p \<noteq> ''string'' \<and> \<not> isRecord p \<longrightarrow> getKeyAndValues p d = (d, empty_object))
   \<and> (let i = issue\<lparr>code := ''custom'', params := Some ((''i18n'', JStr s) # ps)\<rparr>;
           nsv = namespace_value (merged_ns opt)
       in makeZodI18nMap h opt i =
            Inr (MessageObject (merged_t h opt s
              (spread [(''ns'', nsv), (''defaultValue'', JStr (fallback_message h i))]
                 (path_fragment h (merged_t h opt) (merged_handlePath opt) i))))
          \<and> makeZodI18nMap_core h opt i =
            MessageObject (merged_t h opt s
              (spread [(''ns'', nsv), (''defaultValue'', JStr (fallback_message_core i))]
                 (path_fragment_core h (merged_t h opt) (merged_handlePath opt) i))))
   \<and> (typeof p \<noteq> ''string'' \<and> \<not> isRecord p \<longrightarrow>
       (let i = issue\<lparr>code := ''custom'', params := Some ((''i18n'', p) # ps)\<rparr>;
            nsv = namespace_value (merged_ns opt)
        in makeZodI18nMap h opt i =
             Inr (MessageObject (merged_t h opt ''errors.custom''
               (spread [(''ns'', nsv), (''defaultValue'', JStr (fallback_message h i))]
                  (path_fragment h (merged_t h opt) (merged_handlePath opt) i))))
           \<and> makeZodI18nMap_core h opt i =
             MessageObject (merged_t h opt ''errors.custom''
               (spread [(''ns'', nsv), (''defaultValue'', JStr (fallback_message_core i))]
                  (path_fragment_core h (merged_t h opt) (merged_handlePath opt) i)))))"
  unfolding Let_def makeZodI18nMap_def makeZodI18nMap_core_def custom_switch custom_switch_core
  by (simp add: getKeyAndValues_string getKeyAndValues_other)

theorem custom_string_or_other_witness:
  "getKeyAndValues (Prim (PBool True)) ''errors.custom'' = (''errors.custom'', empty_object)
   \<and> makeZodI18nMap sample_host None
        (sample_issue\<lparr>code := ''custom'', params := Some [(''i18n'', Prim (PBool True))]\<rparr>)
      = Inr (MessageObject ''errors.custom:Invalid input'')
   \<and> makeZodI18nMap_core sample_host None
        (sample_issue\<lparr>code := ''custom'', params := Some [(''i18n'', JStr ''my.key'')]\<rparr>)
      = MessageObject ''my.key:Invalid value''"
  using custom_string_or_other [where s = "''my.key''" and d = "''errors.custom''"
          and p = "Prim (PBool True)" and issue = sample_issue and ps = "[]" and opt = None
          and h = sample_host]
  by (simp add: Let_def isRecord_def getKeyAndValues_def for_in_keys_def has_property_def
      merged_handlePath_def default_handlePath_def path_fragment_def path_fragment_core_def
      sample_host_def sample_issue_def show_param_def fallback_message_def
      fallback_message_core_def)

section \<open>Examples\<close>

text \<open>
  The two variants of \<^verbatim>\<open>joinValues\<close> give the same string: the join converts a bigint
  as \<^verbatim>\<open>toString\<close> does.
\<close>

lemma joinValues_core_eq: "joinValues_core h array separator = joinValues h array separator"
proof -
  have "map (join_element h)
          (map (\<lambda>val. case val of PStr s \<Rightarrow> PStr ([CHR 0x27] @ s @ [CHR 0x27]) | _ \<Rightarrow> val) array) =
        map (join_element h)
          (map (\<lambda>val. case val of PStr s \<Rightarrow> PStr ([CHR 0x27] @ s @ [CHR 0x27])
                             | PBigInt i \<Rightarrow> PStr (bigint_toString i) | _ \<Rightarrow> val) array)"
    by (induction array) (simp_all split: prim.splits)
  then show ?thesis
    by (simp only: joinValues_core_def joinValues_def array_join_def)
qed

text \<open>
  Unrecognized keys \<^verbatim>\<open>["a", "b"]\<close>: the parameter \<^verbatim>\<open>keys\<close> is \<^verbatim>\<open>'a', 'b'\<close> and the
  count is 2.
\<close>

lemma unrecognized_keys_example:
  "makeZodI18nMap h
     (Some \<lparr>t = Some tr, ns = None, handlePath = Some HandlePathFalse\<rparr>)
     (issue\<lparr>code := ''unrecognized_keys'', keys := [''a'', ''b'']\<rparr>)
   = Inr (MessageObject
       (tr ''errors.unrecognized_keys''
          [(''keys'', JStr ([CHR 0x27] @ ''a'' @ [CHR 0x27] @ '', '' @ [CHR 0x27] @ ''b'' @ [CHR 0x27])),
           (''count'', JNum (Finite 2)),
           (''ns'', JStr ''zod''),
           (''defaultValue'',
              JStr (fallback_message h (issue\<lparr>code := ''unrecognized_keys'', keys := [''a'', ''b'']\<rparr>)))]))"
  by (simp add: makeZodI18nMap_def switch_issue_def Let_def render_def base_entries_def obj_def
      merged_ns_def merged_handlePath_def defaultNs_def path_fragment_def joinValues_def
      array_join_def)

text \<open>
  A discriminated union on \<^verbatim>\<open>"type"\<close> whose options have the literals \<^verbatim>\<open>"a"\<close> and
  \<^verbatim>\<open>"b"\<close>: the parameter \<^verbatim>\<open>options\<close> is \<^verbatim>\<open>'a' | 'b'\<close>.
\<close>

lemma discriminated_union_example:
  "makeZodI18nMap h
     (Some \<lparr>t = Some tr, ns = None, handlePath = Some HandlePathFalse\<rparr>)
     (issue\<lparr>code := ''invalid_union'',
            inst := Some (ZodDiscriminatedUnion
                            [[(''type'', Some [PStr ''a''])], [(''type'', Some [PStr ''b''])]]),
            discriminator := Some ''type''\<rparr>)
   = Inr (MessageObject
       (tr ''errors.invalid_union_discriminator''
          [(''options'', JStr ([CHR 0x27] @ ''a'' @ [CHR 0x27] @ '' | '' @ [CHR 0x27] @ ''b'' @ [CHR 0x27])),
           (''ns'', JStr ''zod''),
           (''defaultValue'',
              JStr (fallback_message h
                (issue\<lparr>code := ''invalid_union'',
                   inst := Some (ZodDiscriminatedUnion
                                   [[(''type'', Some [PStr ''a''])], [(''type'', Some [PStr ''b''])]]),
                   discriminator := Some ''type''\<rparr>)))]))"
  by (simp add: makeZodI18nMap_def switch_issue_def Let_def render_def base_entries_def obj_def
      merged_ns_def merged_handlePath_def defaultNs_def path_fragment_def joinValues_def
      array_join_def discriminator_value_def default_separator_def)

text \<open>
  The path \<^verbatim>\<open>["user", "email"]\<close> with the default options: the renderer receives the
  context \<^verbatim>\<open>"with_path"\<close> and, as \<^verbatim>\<open>path\<close>, its own rendering of the key
  \<^verbatim>\<open>"user.email"\<close> with that string as the default.
\<close>

lemma path_example:
  "path_fragment h tr (merged_handlePath None)
     (issue\<lparr>path := Some [KeyString ''user'', KeyString ''email'']\<rparr>)
   = [(''context'', JStr ''with_path''),
      (''path'', JStr (tr ''user.email''
                  [(''ns'', JStr ''zod''), (''defaultValue'', JStr ''user.email'')]))]"
  by (simp add: path_fragment_def path_entries_eq path_key_def path_join_def array_join_def
      merged_handlePath_def default_handlePath_def defaultNs_def)

text \<open>
  A \<^verbatim>\<open>too_small\<close> issue of origin \<^verbatim>\<open>"string"\<close> with \<^verbatim>\<open>inclusive\<close> set and the
  minimum 5.
\<close>

lemma too_small_string_inclusive_example:
  "makeZodI18nMap_core h
     (Some \<lparr>t = Some tr, ns = None, handlePath = Some HandlePathFalse\<rparr>)
     (issue\<lparr>code := ''too_small'', origin := ''string'', inclusive := True, exact := None,
            minimum := Number (Finite 5), message := None\<rparr>)
   = MessageObject
       (tr ''errors.too_small.string.inclusive''
          [(''minimum'', JNum (Finite 5)),
           (''count'', JNum (Finite 5)),
           (''ns'', JStr ''zod''),
           (''defaultValue'', JStr ''Invalid value'')])"
  by (simp add: makeZodI18nMap_core_def switch_issue_core_def Let_def render_def base_entries_def
      obj_def merged_ns_def merged_handlePath_def defaultNs_def path_fragment_core_def
      bound_key_def bound_value_def count_value_def fallback_message_core_def)

text \<open>An issue with a code outside the switch keeps the fallback message.\<close>

lemma unknown_code_example:
  "makeZodI18nMap h opt (issue\<lparr>code := ''invalid_key''\<rparr>) =
     Inr (MessageObject (fallback_message h (issue\<lparr>code := ''invalid_key''\<rparr>)))"
  by (simp add: makeZodI18nMap_def switch_issue_def Let_def)

section \<open>Properties of the helpers\<close>

lemma first_issue_message_Cons:
  "first_issue_message (ZodError (i # rest)) = Inr (issue_message i)"
  by (simp add: first_issue_message_def)

lemma first_issue_message_Nil: "first_issue_message (ZodError []) = Inl ThrownTypeError"
  by (simp add: first_issue_message_def)

text \<open>
  C7. \<^verbatim>\<open>getErrorMessage\<close> returns the message of the first issue of the result's error
  when the result carries an error, and throws a plain \<^verbatim>\<open>new Error()\<close> when the
  result carries none.
\<close>

theorem getErrorMessage_first_issue_or_throw:
  "getErrorMessage (parsed\<lparr>error := Some (ZodError (i # rest))\<rparr>) = Inr (issue_message i)
   \<and> getErrorMessage (parsed\<lparr>error := None\<rparr>) = Inl (ThrownError '''')"
  by (simp add: getErrorMessage_def first_issue_message_Cons)

text \<open>
  C8. When the callback throws a \<^verbatim>\<open>$ZodError\<close>, the helper returns the message of its
  first issue; when it throws anything else, the helper throws the same value. The state
  is the one the callback left.
\<close>

theorem getErrorMessageFromZodError_catch:
  "(callback s = (Inl (ThrownZodError (ZodError (i # rest))), s')
      \<longrightarrow> getErrorMessageFromZodError callback s = (Inr (Some (issue_message i)), s'))
   \<and> (callback s = (Inl e, s') \<and> \<not> instanceof_ZodError e
      \<longrightarrow> getErrorMessageFromZodError callback s = (Inl e, s'))"
  by (cases e) (simp_all add: getErrorMessageFromZodError_def first_issue_message_Cons)

theorem getErrorMessageFromZodError_catch_witness:
  "getErrorMessageFromZodError
      (throwing_callback (ThrownZodError (ZodError [ZodIssue ''Required'', ZodIssue ''Too short''])))
      0 = (Inr (Some ''Required''), 1)
   \<and> getErrorMessageFromZodError (throwing_callback (ThrownError ''boom'')) 0
       = (Inl (ThrownError ''boom''), 1)"
  using getErrorMessageFromZodError_catch
          [of "throwing_callback (ThrownZodError (ZodError [ZodIssue ''Required'', ZodIssue ''Too short'']))"
              0 "ZodIssue ''Required''" "[ZodIssue ''Too short'']" 1 "ThrownError ''x''"]
        getErrorMessageFromZodError_catch
          [of "throwing_callback (ThrownError ''boom'')" 0 "ZodIssue ''a''" "[]" 1 "ThrownError ''boom''"]
  by (simp add: throwing_callback_def)

text \<open>
  C9. When the callback returns, the helper returns \<^verbatim>\<open>undefined\<close>: it neither throws
  nor returns a string.
\<close>

theorem getErrorMessageFromZodError_no_throw:
  "callback s = (Inr u, s') \<Longrightarrow> getErrorMessageFromZodError callback s = (Inr None, s')"
  by (simp add: getErrorMessageFromZodError_def)

theorem getErrorMessageFromZodError_no_throw_witness:
  "getErrorMessageFromZodError returning_callback 0 = (Inr None, 1)"
  using getErrorMessageFromZodError_no_throw [of returning_callback 0 "()" 1]
  by (simp add: returning_callback_def)

end
